theory Spec2Isabelle
  imports Main
begin

section \<open>Data model of the custom-resource handler (src/lambda/index.ts)\<close>

text \<open>
  Strings are HOL strings. The property bags of the event are typed \<open>any\<close> in the
  source, so every property the handler reads with a test for absence (\<open>||\<close>,
  \<open>in\<close>) or without any check is an \<open>option\<close>: \<open>None\<close> is JavaScript's
  \<open>undefined\<close>. The document content is opaque to the handler, which only ever
  passes it to \<open>JSON.stringify\<close>; it is a type parameter \<open>'c\<close>, and the
  serialiser of the language is a parameter \<open>stringify\<close> of every function that
  calls it.

  The entry point \<open>handler\<close> only dispatches to \<open>Create\<close>, \<open>Update\<close> and
  \<open>Delete\<close> after \<open>fixBooleanParameters\<close> has rewritten the content; both, and
  the calls of the logger, are left out.

  The user tag mapping \<open>Tags\<close> is an association list in the order in which
  \<open>Object.keys\<close> enumerates the object; \<open>map_of\<close> is the property lookup
  \<open>properties.Tags[key]\<close>.
\<close>

record Tag =
  Key :: string
  Value :: "string option"

record 'c Properties =
  Name :: string
  Content :: 'c
  DocumentType :: "string option"
  TargetType :: "string option"
  targetType :: "string option"
  StackName :: "string option"
  Tags :: "(string \<times> string) list option"
  UpdateDefaultVersion :: "string option"

text \<open>
  \<open>Data\<close> holds the response values that \<open>event.addResponseValue\<close> of the
  custom-resource library stores on the event.
\<close>

record 'c Event =
  StackId :: string
  LogicalResourceId :: string
  ResourceProperties :: "'c Properties"
  OldResourceProperties :: "'c Properties"
  Data :: "string \<rightharpoonup> string"

definition addResponseValue :: "string \<Rightarrow> string \<Rightarrow> 'c Event \<Rightarrow> 'c Event" where
  "addResponseValue k v event = event\<lparr>Data := (Data event)(k \<mapsto> v)\<rparr>"

section \<open>Tag computation\<close>

text \<open>\<open>makeTags\<close>, lines 241-265: three literal entries, then one \<open>push\<close> per key.\<close>

definition makeTags :: "'c Event \<Rightarrow> 'c Properties \<Rightarrow> Tag list" where
  "makeTags event properties =
     (let tags =
        [\<lparr>Key = ''aws-cloudformation:stack-id'', Value = Some (StackId event)\<rparr>,
         \<lparr>Key = ''aws-cloudformation:stack-name'', Value = StackName properties\<rparr>,
         \<lparr>Key = ''aws-cloudformation:logical-id'', Value = Some (LogicalResourceId event)\<rparr>]
      in case Tags properties of
           None \<Rightarrow> tags
         | Some ts \<Rightarrow>
             foldl (\<lambda>tags key. tags @ [\<lparr>Key = key, Value = map_of ts key\<rparr>]) tags (map fst ts))"

text \<open>\<open>missingTags\<close> and \<open>getMissingTags\<close>, lines 267-285.\<close>

definition missingTags :: "Tag list \<Rightarrow> Tag \<Rightarrow> bool" where
  "missingTags newTags currentTag =
     (length (filter (\<lambda>newTag. Key newTag = Key currentTag) newTags) = 0)"

definition getMissingTags :: "Tag list \<Rightarrow> Tag list \<Rightarrow> string list" where
  "getMissingTags oldTags newTags =
     (let missing = filter (missingTags newTags) oldTags
      in map (\<lambda>tag. Key tag) missing)"

section \<open>Language primitives the handler relies on\<close>

text \<open>
  \<open>x || d\<close> on a string-or-undefined \<open>x\<close>: \<open>undefined\<close> and the empty string
  are falsy.
\<close>

definition or_else :: "string option \<Rightarrow> string \<Rightarrow> string" where
  "or_else x d = (case x of None \<Rightarrow> d | Some s \<Rightarrow> if s = [] then d else s)"

text \<open>
  \<open>String.prototype.toLowerCase\<close> on characters read as code points below 256:
  \<open>A\<close>-\<open>Z\<close> and the upper-case letters of the Latin-1 block move by 32.
\<close>

definition toLowerCase_char :: "char \<Rightarrow> char" where
  "toLowerCase_char c =
     (let n = (of_char c :: nat)
      in if (65 \<le> n \<and> n \<le> 90) \<or> (192 \<le> n \<and> n \<le> 222 \<and> n \<noteq> 215)
         then char_of (n + 32) else c)"

definition toLowerCase :: "string \<Rightarrow> string" where
  "toLowerCase s = map toLowerCase_char s"

text \<open>
  \<open>JSON.stringify\<close> on a tag list (an array of objects with a string \<open>Key\<close> and a
  string or undefined \<open>Value\<close>): strings are quoted with the escapes of
  \<open>QuoteJSONString\<close>, an undefined property is left out, array elements are
  separated by commas.
\<close>

definition hexDigit :: "nat \<Rightarrow> char" where
  "hexDigit n = (if n < 10 then char_of (48 + n) else char_of (87 + n))"

definition JSON_escape :: "char \<Rightarrow> string" where
  "JSON_escape c =
     (if c = CHR 0x22 then [CHR 0x5C, CHR 0x22]
      else if c = CHR 0x5C then [CHR 0x5C, CHR 0x5C]
      else if c = CHR 0x08 then [CHR 0x5C, CHR ''b'']
      else if c = CHR 0x0C then [CHR 0x5C, CHR ''f'']
      else if c = CHR 0x0A then [CHR 0x5C, CHR ''n'']
      else if c = CHR 0x0D then [CHR 0x5C, CHR ''r'']
      else if c = CHR 0x09 then [CHR 0x5C, CHR ''t'']
      else if (of_char c :: nat) < 32
        then [CHR 0x5C, CHR ''u'', CHR ''0'', CHR ''0'',
              hexDigit ((of_char c :: nat) div 16), hexDigit ((of_char c :: nat) mod 16)]
      else [c])"

definition JSON_quote :: "string \<Rightarrow> string" where
  "JSON_quote s = CHR 0x22 # concat (map JSON_escape s) @ [CHR 0x22]"

definition JSON_stringify_Tag :: "Tag \<Rightarrow> string" where
  "JSON_stringify_Tag t =
     ''{'' @ JSON_quote ''Key'' @ '':'' @ JSON_quote (Key t) @
     (case Value t of
        None \<Rightarrow> []
      | Some v \<Rightarrow> '','' @ JSON_quote ''Value'' @ '':'' @ JSON_quote v) @
     ''}''"

fun join_comma :: "string list \<Rightarrow> string" where
  "join_comma [] = []"
| "join_comma [x] = x"
| "join_comma (x # y # ys) = x @ '','' @ join_comma (y # ys)"

definition JSON_stringify_Tags :: "Tag list \<Rightarrow> string" where
  "JSON_stringify_Tags ts = ''['' @ join_comma (map JSON_stringify_Tag ts) @ '']''"

section \<open>The remote service, the module state and promises\<close>

text \<open>
  An error is an \<open>AWSError\<close> with its \<open>code\<close> and message, or the \<open>TypeError\<close>
  that reading a property of \<open>undefined\<close> throws; the latter has no \<open>code\<close>.
\<close>

datatype error = AWSError string string | TypeError

fun err_code :: "error \<Rightarrow> string option" where
  "err_code (AWSError c m) = Some c"
| "err_code TypeError = None"

text \<open>
  The requests sent to the SSM client, with their parameters in the order of the
  object literals of the source:
  \<open>CreateDocument Name Content DocumentType TargetType Tags\<close>,
  \<open>UpdateDocument Name Content TargetType DocumentVersion\<close>,
  \<open>AddTagsToResource ResourceType ResourceId Tags\<close>,
  \<open>RemoveTagsFromResource ResourceId ResourceType TagKeys\<close>,
  \<open>UpdateDocumentDefaultVersion Name DocumentVersion\<close>,
  \<open>DeleteDocument Name\<close>.
\<close>

datatype call =
    CreateDocument string string "string option" string "Tag list"
  | UpdateDocument string string string string
  | AddTagsToResource string string "Tag list"
  | RemoveTagsFromResource string string "string list"
  | UpdateDocumentDefaultVersion string string
  | DeleteDocument string

text \<open>
  The remote service answers each request with what the client hands to the
  callback \<open>function (err, data)\<close>: an error or nothing, and for \<open>updateDocument\<close>
  an error or \<open>data.DocumentDescription.LatestVersion\<close>.
\<close>

record SSM =
  ssm_createDocument :: "call \<Rightarrow> error option"
  ssm_updateDocument :: "call \<Rightarrow> error + string"
  ssm_addTagsToResource :: "call \<Rightarrow> error option"
  ssm_removeTagsFromResource :: "call \<Rightarrow> error option"
  ssm_updateDocumentDefaultVersion :: "call \<Rightarrow> error option"
  ssm_deleteDocument :: "call \<Rightarrow> error option"

text \<open>
  \<open>latestVersion\<close> is the module-level variable of line 22, \<open>undefined\<close> when the
  module is loaded. \<open>calls\<close> is the log of the requests issued so far, oldest first;
  it is not in the source and only serves to count remote calls.
\<close>

record world =
  latestVersion :: "string option"
  calls :: "call list"

definition module_loaded :: world where
  "module_loaded = \<lparr>latestVersion = None, calls = []\<rparr>"

text \<open>
  A settled promise: rejected with an error (\<open>Inl\<close>) or resolved with the event
  (\<open>Inr\<close>), together with the world it leaves behind. \<open>thenP p f\<close> is \<open>p.then(f)\<close>.
\<close>

type_synonym 'c promise = "(error + 'c Event) \<times> world"

fun thenP :: "'c promise \<Rightarrow> ('c Event \<Rightarrow> world \<Rightarrow> 'c promise) \<Rightarrow> 'c promise" where
  "thenP (Inr event, w) f = f event w"
| "thenP (Inl err, w) f = (Inl err, w)"

section \<open>The handlers\<close>

definition defaultTargetType :: string where
  "defaultTargetType = ''/''"

text \<open>\<open>Create\<close>, lines 37-60.\<close>

definition Create :: "('c \<Rightarrow> string) \<Rightarrow> SSM \<Rightarrow> 'c Event \<Rightarrow> world \<Rightarrow> 'c promise" where
  "Create stringify ssm event w =
     (let req = CreateDocument
                  (Name (ResourceProperties event))
                  (stringify (Content (ResourceProperties event)))
                  (DocumentType (ResourceProperties event))
                  (or_else (TargetType (ResourceProperties event)) defaultTargetType)
                  (makeTags event (ResourceProperties event));
          w' = w\<lparr>calls := calls w @ [req]\<rparr>
      in case ssm_createDocument ssm req of
           Some err \<Rightarrow> (Inl err, w')
         | None \<Rightarrow>
             (Inr (addResponseValue ''Name'' (Name (ResourceProperties event)) event), w'))"

text \<open>\<open>updateDocument\<close>, lines 84-121.\<close>

definition updateDocument :: "('c \<Rightarrow> string) \<Rightarrow> SSM \<Rightarrow> 'c Event \<Rightarrow> world \<Rightarrow> 'c promise" where
  "updateDocument stringify ssm event w =
     (if stringify (Content (ResourceProperties event)) =
           stringify (Content (OldResourceProperties event)) \<and>
         or_else (targetType (ResourceProperties event)) defaultTargetType =
           or_else (targetType (OldResourceProperties event)) defaultTargetType
      then (Inr event, w)
      else
        let req = UpdateDocument
                    (Name (ResourceProperties event))
                    (stringify (Content (ResourceProperties event)))
                    (or_else (targetType (ResourceProperties event)) defaultTargetType)
                    ''$LATEST'';
            w' = w\<lparr>calls := calls w @ [req]\<rparr>
        in case ssm_updateDocument ssm req of
             Inl err \<Rightarrow>
               if err_code err = Some ''DuplicateDocumentContent''
               then (Inr event, w')
               else (Inl err, w')
           | Inr v \<Rightarrow> (Inr event, w'\<lparr>latestVersion := Some v\<rparr>))"

text \<open>\<open>updateDocumentAddTags\<close>, lines 123-149.\<close>

definition updateDocumentAddTags :: "SSM \<Rightarrow> 'c Event \<Rightarrow> world \<Rightarrow> 'c promise" where
  "updateDocumentAddTags ssm event w =
     (let oldTags = makeTags event (OldResourceProperties event);
          newTags = makeTags event (ResourceProperties event)
      in if JSON_stringify_Tags oldTags = JSON_stringify_Tags newTags
         then (Inr event, w)
         else
           let req = AddTagsToResource ''Document'' (Name (ResourceProperties event)) newTags;
               w' = w\<lparr>calls := calls w @ [req]\<rparr>
           in case ssm_addTagsToResource ssm req of
                Some err \<Rightarrow> (Inl err, w')
              | None \<Rightarrow> (Inr event, w'))"

text \<open>\<open>updateDocumentRemoveTags\<close>, lines 151-184.\<close>

definition updateDocumentRemoveTags :: "SSM \<Rightarrow> 'c Event \<Rightarrow> world \<Rightarrow> 'c promise" where
  "updateDocumentRemoveTags ssm event w =
     (let oldTags = makeTags event (OldResourceProperties event);
          newTags = makeTags event (ResourceProperties event);
          tagsToRemove = getMissingTags oldTags newTags
      in if JSON_stringify_Tags oldTags = JSON_stringify_Tags newTags \<or>
            length tagsToRemove = 0
         then (Inr event, w)
         else
           let req = RemoveTagsFromResource
                       (Name (ResourceProperties event)) ''Document'' tagsToRemove;
               w' = w\<lparr>calls := calls w @ [req]\<rparr>
           in case ssm_removeTagsFromResource ssm req of
                Some err \<Rightarrow> (Inl err, w')
              | None \<Rightarrow> (Inr event, w'))"

text \<open>
  \<open>updateDocumentDefaultVersion\<close>, lines 186-222. Calling \<open>toLowerCase\<close> on an
  absent flag throws inside the promise executor, which rejects the promise.
  \<open>!latestVersion\<close> holds for \<open>undefined\<close> and for the empty string.
\<close>

definition updateDocumentDefaultVersion :: "SSM \<Rightarrow> 'c Event \<Rightarrow> world \<Rightarrow> 'c promise" where
  "updateDocumentDefaultVersion ssm event w =
     (case UpdateDefaultVersion (ResourceProperties event) of
        None \<Rightarrow> (Inl TypeError, w)
      | Some flag \<Rightarrow>
          if toLowerCase flag \<noteq> ''true'' then (Inr event, w)
          else
            (case latestVersion w of
               None \<Rightarrow> (Inr event, w)
             | Some v \<Rightarrow>
                 if v = [] then (Inr event, w)
                 else
                   let req = UpdateDocumentDefaultVersion (Name (ResourceProperties event)) v;
                       w' = w\<lparr>calls := calls w @ [req]\<rparr>
                   in (case ssm_updateDocumentDefaultVersion ssm req of
                         Some err \<Rightarrow> (Inl err, w')
                       | None \<Rightarrow> (Inr event, w'))))"

text \<open>
  \<open>Update\<close>, lines 62-82. \<open>updatePipeline\<close> is the chain of the four \<open>then\<close>-linked
  steps of lines 64-67; the last \<open>then\<close> adds the response value to the event the
  steps resolved with (every step resolves with the event object it was given), and
  \<open>catch\<close> sees the rejection of any of them.
\<close>

definition updatePipeline :: "('c \<Rightarrow> string) \<Rightarrow> SSM \<Rightarrow> 'c Event \<Rightarrow> world \<Rightarrow> 'c promise" where
  "updatePipeline stringify ssm event w =
     thenP (thenP (thenP (updateDocument stringify ssm event w)
                         (updateDocumentAddTags ssm))
                  (updateDocumentRemoveTags ssm))
           (updateDocumentDefaultVersion ssm)"

definition Update :: "('c \<Rightarrow> string) \<Rightarrow> SSM \<Rightarrow> 'c Event \<Rightarrow> world \<Rightarrow> 'c promise" where
  "Update stringify ssm event w =
     (case thenP (updatePipeline stringify ssm event w)
                 (\<lambda>data w'. (Inr (addResponseValue ''Name''
                                     (Name (ResourceProperties event)) data), w')) of
        (Inr data, w') \<Rightarrow> (Inr data, w')
      | (Inl err, w') \<Rightarrow>
          (case err_code err of
             None \<Rightarrow> (Inl err, w')
           | Some c \<Rightarrow>
               if c \<in> set [''InvalidResourceId'', ''InvalidDocument'']
               then Create stringify ssm event w'
               else (Inl err, w')))"

text \<open>\<open>Delete\<close>, lines 224-239.\<close>

definition Delete :: "SSM \<Rightarrow> 'c Event \<Rightarrow> world \<Rightarrow> 'c promise" where
  "Delete ssm event w =
     (let req = DeleteDocument (Name (ResourceProperties event));
          w' = w\<lparr>calls := calls w @ [req]\<rparr>
      in case ssm_deleteDocument ssm req of
           Some err \<Rightarrow> (Inl err, w')
         | None \<Rightarrow> (Inr event, w'))"

section \<open>Counting remote calls\<close>


fun isContentUpdate :: "call \<Rightarrow> bool" where
  "isContentUpdate (UpdateDocument n c t v) = True"
| "isContentUpdate c = False"

section \<open>Sample inputs\<close>

text \<open>
  Concrete inputs for the closed instances below. The content of the sample
  documents is a JavaScript string, whose serialisation is \<open>JSON_quote\<close>.
  \<open>ssm_ok v\<close> is a service that accepts every request and assigns version \<open>v\<close>
  to an update; \<open>ssm_update_fails err\<close> differs in rejecting updates with \<open>err\<close>.
\<close>

definition ssm_ok :: "string \<Rightarrow> SSM" where
  "ssm_ok v =
     \<lparr>ssm_createDocument = (\<lambda>req. None),
      ssm_updateDocument = (\<lambda>req. Inr v),
      ssm_addTagsToResource = (\<lambda>req. None),
      ssm_removeTagsFromResource = (\<lambda>req. None),
      ssm_updateDocumentDefaultVersion = (\<lambda>req. None),
      ssm_deleteDocument = (\<lambda>req. None)\<rparr>"

definition ssm_update_fails :: "error \<Rightarrow> SSM" where
  "ssm_update_fails err = (ssm_ok [])\<lparr>ssm_updateDocument := (\<lambda>req. Inl err)\<rparr>"

definition ssm_delete_fails :: "error \<Rightarrow> SSM" where
  "ssm_delete_fails err = (ssm_ok [])\<lparr>ssm_deleteDocument := (\<lambda>req. Some err)\<rparr>"

definition props :: "string \<Rightarrow> (string \<times> string) list \<Rightarrow> string Properties" where
  "props c ts =
     \<lparr>Name = ''doc1'', Content = c, DocumentType = Some ''Automation'',
      TargetType = None, targetType = None, StackName = Some ''stack'',
      Tags = Some ts, UpdateDefaultVersion = Some ''true''\<rparr>"

definition update_event :: "string Properties \<Rightarrow> string Properties \<Rightarrow> string Event" where
  "update_event old new =
     \<lparr>StackId = ''arn:stack/1'', LogicalResourceId = ''Doc'',
      ResourceProperties = new, OldResourceProperties = old, Data = Map.empty\<rparr>"

section \<open>Properties of the tag functions\<close>

lemma foldl_push: "foldl (\<lambda>acc x. acc @ [f x]) acc xs = acc @ map f xs"
  by (induction xs arbitrary: acc) simp_all

lemma map_of_entries:
  "distinct (map fst ts) \<Longrightarrow>
     map (\<lambda>k. \<lparr>Key = k, Value = map_of ts k\<rparr>) (map fst ts) =
     map (\<lambda>(k, v). \<lparr>Key = k, Value = Some v\<rparr>) ts"
proof (induction ts)
  case Nil
  then show ?case by simp
next
  case (Cons a ts)
  obtain k v where a: "a = (k, v)" by (cases a)
  from Cons.prems a have notin: "k \<notin> fst ` set ts" and dist: "distinct (map fst ts)"
    by simp_all
  have "map (\<lambda>k'. \<lparr>Key = k', Value = map_of (a # ts) k'\<rparr>) (map fst ts) =
        map (\<lambda>k'. \<lparr>Key = k', Value = map_of ts k'\<rparr>) (map fst ts)"
    using notin a by (intro map_cong) auto
  with Cons.IH [OF dist] a show ?case by simp
qed

lemma missingTags_iff: "missingTags newTags t \<longleftrightarrow> Key t \<notin> Key ` set newTags"
  unfolding missingTags_def length_0_conv filter_empty_conv image_iff
  by (metis (no_types))

lemma missingTags_eq: "missingTags newTags = (\<lambda>t. Key t \<notin> Key ` set newTags)"
  by (rule ext) (rule missingTags_iff)

lemma makeTags_append:
  "makeTags event properties =
     [\<lparr>Key = ''aws-cloudformation:stack-id'', Value = Some (StackId event)\<rparr>,
      \<lparr>Key = ''aws-cloudformation:stack-name'', Value = StackName properties\<rparr>,
      \<lparr>Key = ''aws-cloudformation:logical-id'', Value = Some (LogicalResourceId event)\<rparr>] @
     (case Tags properties of
        None \<Rightarrow> []
      | Some ts \<Rightarrow> map (\<lambda>k. \<lparr>Key = k, Value = map_of ts k\<rparr>) (map fst ts))"
  by (simp add: makeTags_def foldl_push split: option.split)

lemma system_keys_in_makeTags:
  "''aws-cloudformation:stack-id'' \<in> Key ` set (makeTags event properties)"
  "''aws-cloudformation:stack-name'' \<in> Key ` set (makeTags event properties)"
  "''aws-cloudformation:logical-id'' \<in> Key ` set (makeTags event properties)"
  by (simp_all add: makeTags_append)

lemma set_getMissingTags:
  "set (getMissingTags oldTags newTags) = Key ` set oldTags - Key ` set newTags"
  by (auto simp: getMissingTags_def missingTags_iff)

text \<open>
  C7. \<open>getMissingTags\<close> returns the keys of the entries of \<open>oldTags\<close> whose key
  occurs in no entry of \<open>newTags\<close>, in the order of \<open>oldTags\<close>; values play no
  part, so two lists with the same keys in the same positions give the empty
  list. The two examples of the specification are instances.
\<close>

theorem getMissingTags_by_key:
  "getMissingTags oldTags newTags =
     map Key (filter (\<lambda>t. Key t \<notin> Key ` set newTags) oldTags) \<and>
   (map Key oldTags = map Key newTags \<longrightarrow> getMissingTags oldTags newTags = []) \<and>
   getMissingTags
     [\<lparr>Key = ''A'', Value = va\<rparr>, \<lparr>Key = ''B'', Value = vb\<rparr>, \<lparr>Key = ''C'', Value = vc\<rparr>]
     [\<lparr>Key = ''B'', Value = vb'\<rparr>, \<lparr>Key = ''D'', Value = vd\<rparr>] = [''A'', ''C''] \<and>
   getMissingTags [\<lparr>Key = ''A'', Value = va\<rparr>] [\<lparr>Key = ''A'', Value = va'\<rparr>] = []"
proof -
  have general: "getMissingTags oldTags newTags =
      map Key (filter (\<lambda>t. Key t \<notin> Key ` set newTags) oldTags)"
    by (simp add: getMissingTags_def missingTags_eq)
  have same_keys: "getMissingTags oldTags newTags = []" if "map Key oldTags = map Key newTags"
  proof -
    have "Key ` set oldTags = Key ` set newTags"
      using that by (metis set_map)
    then show ?thesis
      unfolding general by (auto simp: filter_empty_conv)
  qed
  have ex1: "getMissingTags
     [\<lparr>Key = ''A'', Value = va\<rparr>, \<lparr>Key = ''B'', Value = vb\<rparr>, \<lparr>Key = ''C'', Value = vc\<rparr>]
     [\<lparr>Key = ''B'', Value = vb'\<rparr>, \<lparr>Key = ''D'', Value = vd\<rparr>] = [''A'', ''C'']"
    by (simp add: getMissingTags_def missingTags_def)
  have ex2: "getMissingTags [\<lparr>Key = ''A'', Value = va\<rparr>] [\<lparr>Key = ''A'', Value = va'\<rparr>] = []"
    by (simp add: getMissingTags_def missingTags_def)
  from general same_keys ex1 ex2 show ?thesis by blast
qed

theorem getMissingTags_by_key_witness:
  "map Key [\<lparr>Key = ''env'', Value = Some ''dev''\<rparr>] = map Key [\<lparr>Key = ''env'', Value = Some ''prod''\<rparr>] \<and>
   getMissingTags [\<lparr>Key = ''env'', Value = Some ''dev''\<rparr>] [\<lparr>Key = ''env'', Value = Some ''prod''\<rparr>] = []"
  using getMissingTags_by_key
    [of "[\<lparr>Key = ''env'', Value = Some ''dev''\<rparr>]" "[\<lparr>Key = ''env'', Value = Some ''prod''\<rparr>]"]
  by simp

text \<open>
  C8. The list computed by \<open>makeTags\<close> starts with the three system tags, built
  from the stack id and logical id of the event and the stack name of the property
  set, and continues with one entry per key of the user tag mapping, in the
  mapping's order; a mapping is an object, so its keys are distinct and these are
  exactly its entries. Without a mapping the result is the three system tags.
\<close>

theorem makeTags_system_then_user:
  "take 3 (makeTags event properties) =
     [\<lparr>Key = ''aws-cloudformation:stack-id'', Value = Some (StackId event)\<rparr>,
      \<lparr>Key = ''aws-cloudformation:stack-name'', Value = StackName properties\<rparr>,
      \<lparr>Key = ''aws-cloudformation:logical-id'', Value = Some (LogicalResourceId event)\<rparr>] \<and>
   (\<forall>ts. Tags properties = Some ts \<and> distinct (map fst ts) \<longrightarrow>
      drop 3 (makeTags event properties) = map (\<lambda>(k, v). \<lparr>Key = k, Value = Some v\<rparr>) ts) \<and>
   (Tags properties = None \<longrightarrow>
      makeTags event properties =
        [\<lparr>Key = ''aws-cloudformation:stack-id'', Value = Some (StackId event)\<rparr>,
         \<lparr>Key = ''aws-cloudformation:stack-name'', Value = StackName properties\<rparr>,
         \<lparr>Key = ''aws-cloudformation:logical-id'', Value = Some (LogicalResourceId event)\<rparr>])"
proof -
  have user: "drop 3 (makeTags event properties) = map (\<lambda>(k, v). \<lparr>Key = k, Value = Some v\<rparr>) ts"
    if "Tags properties = Some ts" "distinct (map fst ts)" for ts
    using that(1) map_of_entries [OF that(2)] by (simp only: makeTags_append) simp
  have sys: "take 3 (makeTags event properties) =
     [\<lparr>Key = ''aws-cloudformation:stack-id'', Value = Some (StackId event)\<rparr>,
      \<lparr>Key = ''aws-cloudformation:stack-name'', Value = StackName properties\<rparr>,
      \<lparr>Key = ''aws-cloudformation:logical-id'', Value = Some (LogicalResourceId event)\<rparr>]"
    by (simp only: makeTags_append) simp
  have absent: "makeTags event properties =
        [\<lparr>Key = ''aws-cloudformation:stack-id'', Value = Some (StackId event)\<rparr>,
         \<lparr>Key = ''aws-cloudformation:stack-name'', Value = StackName properties\<rparr>,
         \<lparr>Key = ''aws-cloudformation:logical-id'', Value = Some (LogicalResourceId event)\<rparr>]"
    if "Tags properties = None"
    using that by (simp add: makeTags_def)
  from user sys absent show ?thesis by blast
qed

theorem makeTags_system_then_user_witness:
  "Tags (props ''a'' [(''x'', ''1''), (''y'', ''2'')]) = Some [(''x'', ''1''), (''y'', ''2'')] \<and>
   distinct (map fst [(''x'', ''1''), (''y'', ''2'')]) \<and>
   drop 3 (makeTags (update_event (props ''a'' []) (props ''a'' []))
                    (props ''a'' [(''x'', ''1''), (''y'', ''2'')])) =
     [\<lparr>Key = ''x'', Value = Some ''1''\<rparr>, \<lparr>Key = ''y'', Value = Some ''2''\<rparr>] \<and>
   Tags ((props ''a'' [])\<lparr>Tags := None\<rparr>) = None \<and>
   makeTags (update_event (props ''a'' []) (props ''a'' [])) ((props ''a'' [])\<lparr>Tags := None\<rparr>) =
     [\<lparr>Key = ''aws-cloudformation:stack-id'', Value = Some ''arn:stack/1''\<rparr>,
      \<lparr>Key = ''aws-cloudformation:stack-name'', Value = Some ''stack''\<rparr>,
      \<lparr>Key = ''aws-cloudformation:logical-id'', Value = Some ''Doc''\<rparr>]"
  using makeTags_system_then_user
      [of "update_event (props ''a'' []) (props ''a'' [])"
          "props ''a'' [(''x'', ''1''), (''y'', ''2'')]"]
    makeTags_system_then_user
      [of "update_event (props ''a'' []) (props ''a'' [])" "(props ''a'' [])\<lparr>Tags := None\<rparr>"]
  by (simp add: props_def update_event_def)

text \<open>
  C10. The keys that the tag-removal step computes from the two tag lists of one
  event never include a system tag key, because the new list always holds all
  three; so a \<open>RemoveTagsFromResource\<close> request of that step carries none of them.
\<close>

theorem getMissingTags_no_system_key:
  "''aws-cloudformation:stack-id'' \<notin>
     set (getMissingTags (makeTags event oldProps) (makeTags event newProps)) \<and>
   ''aws-cloudformation:stack-name'' \<notin>
     set (getMissingTags (makeTags event oldProps) (makeTags event newProps)) \<and>
   ''aws-cloudformation:logical-id'' \<notin>
     set (getMissingTags (makeTags event oldProps) (makeTags event newProps)) \<and>
   (\<forall>rid rt keys.
      RemoveTagsFromResource rid rt keys \<in> set (calls (snd (updateDocumentRemoveTags ssm event w))) \<and>
      RemoveTagsFromResource rid rt keys \<notin> set (calls w) \<longrightarrow>
      ''aws-cloudformation:stack-id'' \<notin> set keys \<and>
      ''aws-cloudformation:stack-name'' \<notin> set keys \<and>
      ''aws-cloudformation:logical-id'' \<notin> set keys)"
proof -
  have pure: "k \<notin> set (getMissingTags (makeTags event a) (makeTags event b))"
    if "k \<in> Key ` set (makeTags event b)" for k and a b :: "'a Properties"
    using that by (simp add: set_getMissingTags)
  have step: "keys = getMissingTags (makeTags event (OldResourceProperties event))
                                    (makeTags event (ResourceProperties event))"
    if "RemoveTagsFromResource rid rt keys \<in> set (calls (snd (updateDocumentRemoveTags ssm event w)))"
       "RemoveTagsFromResource rid rt keys \<notin> set (calls w)" for rid rt keys
  proof -
    have "calls (snd (updateDocumentRemoveTags ssm event w)) = calls w \<or>
        calls (snd (updateDocumentRemoveTags ssm event w)) =
          calls w @ [RemoveTagsFromResource (Name (ResourceProperties event)) ''Document''
            (getMissingTags (makeTags event (OldResourceProperties event))
                            (makeTags event (ResourceProperties event)))]"
      by (simp add: updateDocumentRemoveTags_def Let_def split: option.split)
    with that show ?thesis by auto
  qed
  have p1: "''aws-cloudformation:stack-id'' \<notin>
      set (getMissingTags (makeTags event a) (makeTags event b))" for a b :: "'a Properties"
    by (rule pure) (rule system_keys_in_makeTags(1))
  have p2: "''aws-cloudformation:stack-name'' \<notin>
      set (getMissingTags (makeTags event a) (makeTags event b))" for a b :: "'a Properties"
    by (rule pure) (rule system_keys_in_makeTags(2))
  have p3: "''aws-cloudformation:logical-id'' \<notin>
      set (getMissingTags (makeTags event a) (makeTags event b))" for a b :: "'a Properties"
    by (rule pure) (rule system_keys_in_makeTags(3))
  have removal: "''aws-cloudformation:stack-id'' \<notin> set keys \<and>
      ''aws-cloudformation:stack-name'' \<notin> set keys \<and>
      ''aws-cloudformation:logical-id'' \<notin> set keys"
    if "RemoveTagsFromResource rid rt keys \<in> set (calls (snd (updateDocumentRemoveTags ssm event w))) \<and>
        RemoveTagsFromResource rid rt keys \<notin> set (calls w)" for rid rt keys
  proof -
    from that have "keys = getMissingTags (makeTags event (OldResourceProperties event))
                                          (makeTags event (ResourceProperties event))"
      using step [of rid rt keys] by simp
    then show ?thesis
      by (simp only: p1 p2 p3 not_False_eq_True simp_thms)
  qed
  from removal have all: "\<forall>rid rt keys.
      RemoveTagsFromResource rid rt keys \<in> set (calls (snd (updateDocumentRemoveTags ssm event w))) \<and>
      RemoveTagsFromResource rid rt keys \<notin> set (calls w) \<longrightarrow>
      ''aws-cloudformation:stack-id'' \<notin> set keys \<and>
      ''aws-cloudformation:stack-name'' \<notin> set keys \<and>
      ''aws-cloudformation:logical-id'' \<notin> set keys"
    by (intro allI impI)
  from p1 [of oldProps newProps] p2 [of oldProps newProps] p3 [of oldProps newProps] all
  show ?thesis
    by (intro conjI)
qed

theorem getMissingTags_no_system_key_witness:
  "RemoveTagsFromResource ''doc1'' ''Document'' [''y''] \<in>
     set (calls (snd (updateDocumentRemoveTags (ssm_ok ''2'')
       (update_event (props ''a'' [(''x'', ''1''), (''y'', ''2'')]) (props ''a'' [(''x'', ''1'')]))
       module_loaded))) \<and>
   RemoveTagsFromResource ''doc1'' ''Document'' [''y''] \<notin> set (calls module_loaded) \<and>
   ''aws-cloudformation:stack-id'' \<notin> set [''y''] \<and>
   ''aws-cloudformation:stack-name'' \<notin> set [''y''] \<and>
   ''aws-cloudformation:logical-id'' \<notin> set [''y'']"
proof -
  have issued: "calls (snd (updateDocumentRemoveTags (ssm_ok ''2'')
       (update_event (props ''a'' [(''x'', ''1''), (''y'', ''2'')]) (props ''a'' [(''x'', ''1'')]))
       module_loaded)) = [RemoveTagsFromResource ''doc1'' ''Document'' [''y'']]"
    by code_simp
  have fresh: "calls module_loaded = []"
    by (simp add: module_loaded_def)
  from issued fresh
    getMissingTags_no_system_key
      [of "update_event (props ''a'' [(''x'', ''1''), (''y'', ''2'')]) (props ''a'' [(''x'', ''1'')])"
          "props ''a'' [(''x'', ''1''), (''y'', ''2'')]" "props ''a'' [(''x'', ''1'')]"
          "ssm_ok ''2''" module_loaded]
  show ?thesis by simp
qed

section \<open>Properties of the handlers\<close>

lemma thenP_Inr_iff:
  "thenP p f = (Inr e, w') \<longleftrightarrow> (\<exists>e0 w0. p = (Inr e0, w0) \<and> f e0 w0 = (Inr e, w'))"
  by (cases "(p, f)" rule: thenP.cases) auto

lemma thenP_Inl_iff:
  "thenP p f = (Inl err, w') \<longleftrightarrow>
     p = (Inl err, w') \<or> (\<exists>e0 w0. p = (Inr e0, w0) \<and> f e0 w0 = (Inl err, w'))"
  by (cases "(p, f)" rule: thenP.cases) auto

text \<open>
  The pipeline rejects exactly when one of its four steps does, the steps before
  it having resolved; the error and the world are those of the rejecting step.
\<close>

lemma updatePipeline_rejects_iff:
  "updatePipeline stringify ssm event w = (Inl err, w') \<longleftrightarrow>
     updateDocument stringify ssm event w = (Inl err, w') \<or>
     (\<exists>e1 w1. updateDocument stringify ssm event w = (Inr e1, w1) \<and>
        (updateDocumentAddTags ssm e1 w1 = (Inl err, w') \<or>
         (\<exists>e2 w2. updateDocumentAddTags ssm e1 w1 = (Inr e2, w2) \<and>
            (updateDocumentRemoveTags ssm e2 w2 = (Inl err, w') \<or>
             (\<exists>e3 w3. updateDocumentRemoveTags ssm e2 w2 = (Inr e3, w3) \<and>
                updateDocumentDefaultVersion ssm e3 w3 = (Inl err, w'))))))"
  unfolding updatePipeline_def thenP_Inl_iff thenP_Inr_iff
  by (intro iffI; elim disjE exE conjE; simp)

text \<open>
  C9. \<open>Delete\<close> issues exactly one request, a \<open>DeleteDocument\<close> by name, and hands
  every error of the service to the caller as it is, also the one that reports the
  document gone; it resolves with the event only when the service reports no error.
\<close>

theorem Delete_propagates_every_error:
  "calls (snd (Delete ssm event w)) =
     calls w @ [DeleteDocument (Name (ResourceProperties event))] \<and>
   (\<forall>err. ssm_deleteDocument ssm (DeleteDocument (Name (ResourceProperties event))) = Some err
      \<longrightarrow> fst (Delete ssm event w) = Inl err) \<and>
   (ssm_deleteDocument ssm (DeleteDocument (Name (ResourceProperties event))) = None
      \<longrightarrow> fst (Delete ssm event w) = Inr event)"
  by (simp add: Delete_def Let_def split: option.split)

theorem Delete_propagates_every_error_witness:
  "ssm_deleteDocument (ssm_delete_fails (AWSError ''InvalidDocument'' ''Document does not exist''))
     (DeleteDocument (Name (ResourceProperties (update_event (props ''a'' []) (props ''a'' [])))))
     = Some (AWSError ''InvalidDocument'' ''Document does not exist'') \<and>
   fst (Delete (ssm_delete_fails (AWSError ''InvalidDocument'' ''Document does not exist''))
          (update_event (props ''a'' []) (props ''a'' [])) module_loaded)
     = Inl (AWSError ''InvalidDocument'' ''Document does not exist'') \<and>
   calls (snd (Delete (ssm_delete_fails (AWSError ''InvalidDocument'' ''Document does not exist''))
          (update_event (props ''a'' []) (props ''a'' [])) module_loaded))
     = [DeleteDocument ''doc1''] \<and>
   ssm_deleteDocument (ssm_ok ''1'')
     (DeleteDocument (Name (ResourceProperties (update_event (props ''a'' []) (props ''a'' [])))))
     = None \<and>
   fst (Delete (ssm_ok ''1'') (update_event (props ''a'' []) (props ''a'' [])) module_loaded)
     = Inr (update_event (props ''a'' []) (props ''a'' []))"
  using Delete_propagates_every_error
    [of "ssm_delete_fails (AWSError ''InvalidDocument'' ''Document does not exist'')"
        "update_event (props ''a'' []) (props ''a'' [])" module_loaded]
    Delete_propagates_every_error
    [of "ssm_ok ''1''" "update_event (props ''a'' []) (props ''a'' [])" module_loaded]
  by (simp add: ssm_delete_fails_def ssm_ok_def update_event_def props_def module_loaded_def)

text \<open>
  C3. When the content or the target type read by the step changed and the service
  rejects the update with code \<open>DuplicateDocumentContent\<close>, step 1 resolves with the
  event, leaves \<open>latestVersion\<close> as it was, and the pipeline goes on with the
  tag-addition, tag-removal and default-version steps; with any other error the
  step, and with it the pipeline, rejects with that error.
\<close>

theorem updateDocument_duplicate_content_benign:
  assumes changed:
    "\<not> (stringify (Content (ResourceProperties event)) =
          stringify (Content (OldResourceProperties event)) \<and>
        or_else (targetType (ResourceProperties event)) defaultTargetType =
          or_else (targetType (OldResourceProperties event)) defaultTargetType)"
    and fails:
    "ssm_updateDocument ssm
       (UpdateDocument (Name (ResourceProperties event))
          (stringify (Content (ResourceProperties event)))
          (or_else (targetType (ResourceProperties event)) defaultTargetType) ''$LATEST'')
     = Inl err"
  shows
    "(err_code err = Some ''DuplicateDocumentContent'' \<longrightarrow>
        fst (updateDocument stringify ssm event w) = Inr event \<and>
        latestVersion (snd (updateDocument stringify ssm event w)) = latestVersion w \<and>
        updatePipeline stringify ssm event w =
          thenP (thenP (updateDocumentAddTags ssm event (snd (updateDocument stringify ssm event w)))
                       (updateDocumentRemoveTags ssm))
                (updateDocumentDefaultVersion ssm)) \<and>
     (err_code err \<noteq> Some ''DuplicateDocumentContent'' \<longrightarrow>
        fst (updateDocument stringify ssm event w) = Inl err \<and>
        updatePipeline stringify ssm event w = updateDocument stringify ssm event w)"
proof -
  let ?req = "UpdateDocument (Name (ResourceProperties event))
          (stringify (Content (ResourceProperties event)))
          (or_else (targetType (ResourceProperties event)) defaultTargetType) ''$LATEST''"
  have step: "updateDocument stringify ssm event w =
      (if err_code err = Some ''DuplicateDocumentContent'' then Inr event else Inl err,
       w\<lparr>calls := calls w @ [?req]\<rparr>)"
    using changed fails by (auto simp: updateDocument_def Let_def)
  show ?thesis
    by (simp add: step updatePipeline_def)
qed

theorem updateDocument_duplicate_content_benign_witness:
  "\<not> (JSON_quote (Content (ResourceProperties (update_event (props ''a'' []) (props ''b'' [])))) =
        JSON_quote (Content (OldResourceProperties (update_event (props ''a'' []) (props ''b'' [])))) \<and>
      or_else (targetType (ResourceProperties (update_event (props ''a'' []) (props ''b'' []))))
          defaultTargetType =
        or_else (targetType (OldResourceProperties (update_event (props ''a'' []) (props ''b'' []))))
          defaultTargetType) \<and>
   err_code (AWSError ''DuplicateDocumentContent'' ''same content'') = Some ''DuplicateDocumentContent'' \<and>
   fst (updateDocument JSON_quote
          (ssm_update_fails (AWSError ''DuplicateDocumentContent'' ''same content''))
          (update_event (props ''a'' []) (props ''b'' [])) module_loaded)
     = Inr (update_event (props ''a'' []) (props ''b'' [])) \<and>
   err_code (AWSError ''AccessDenied'' ''no'') \<noteq> Some ''DuplicateDocumentContent'' \<and>
   fst (updateDocument JSON_quote (ssm_update_fails (AWSError ''AccessDenied'' ''no''))
          (update_event (props ''a'' []) (props ''b'' [])) module_loaded)
     = Inl (AWSError ''AccessDenied'' ''no'')"
proof -
  let ?ev = "update_event (props ''a'' []) (props ''b'' [])"
  have changed: "\<not> (JSON_quote (Content (ResourceProperties ?ev)) =
        JSON_quote (Content (OldResourceProperties ?ev)) \<and>
      or_else (targetType (ResourceProperties ?ev)) defaultTargetType =
        or_else (targetType (OldResourceProperties ?ev)) defaultTargetType)"
    by (simp add: update_event_def props_def JSON_quote_def JSON_escape_def)
  have fails: "ssm_updateDocument (ssm_update_fails err)
       (UpdateDocument (Name (ResourceProperties ?ev)) (JSON_quote (Content (ResourceProperties ?ev)))
          (or_else (targetType (ResourceProperties ?ev)) defaultTargetType) ''$LATEST'')
     = Inl err" for err
    by (simp add: ssm_update_fails_def)
  from changed
    updateDocument_duplicate_content_benign [OF changed fails, of _ module_loaded]
  show ?thesis by simp
qed

text \<open>
  C2. When the pipeline rejects with an error whose code is \<open>InvalidResourceId\<close> or
  \<open>InvalidDocument\<close>, \<open>Update\<close> settles as \<open>Create\<close> does on the same event: one
  \<open>CreateDocument\<close> request built from the current properties is issued, and when
  the service accepts it the result is the event with the response value \<open>Name\<close>.
  When the pipeline rejects with any other error, \<open>Update\<close> rejects with that error.
\<close>

theorem Update_self_heal:
  assumes rejected: "updatePipeline stringify ssm event w = (Inl err, w')"
  shows
    "(err_code err = Some ''InvalidResourceId'' \<or> err_code err = Some ''InvalidDocument'' \<longrightarrow>
        Update stringify ssm event w = Create stringify ssm event w' \<and>
        calls (snd (Update stringify ssm event w)) =
          calls w' @ [CreateDocument (Name (ResourceProperties event))
                        (stringify (Content (ResourceProperties event)))
                        (DocumentType (ResourceProperties event))
                        (or_else (TargetType (ResourceProperties event)) defaultTargetType)
                        (makeTags event (ResourceProperties event))] \<and>
        (ssm_createDocument ssm
           (CreateDocument (Name (ResourceProperties event))
              (stringify (Content (ResourceProperties event)))
              (DocumentType (ResourceProperties event))
              (or_else (TargetType (ResourceProperties event)) defaultTargetType)
              (makeTags event (ResourceProperties event))) = None \<longrightarrow>
         (\<exists>result. fst (Update stringify ssm event w) = Inr result \<and>
            Data result ''Name'' = Some (Name (ResourceProperties event))))) \<and>
     (err_code err \<noteq> Some ''InvalidResourceId'' \<and> err_code err \<noteq> Some ''InvalidDocument'' \<longrightarrow>
        Update stringify ssm event w = (Inl err, w'))"
proof -
  have heal: "Update stringify ssm event w = Create stringify ssm event w'"
    if "err_code err = Some ''InvalidResourceId'' \<or> err_code err = Some ''InvalidDocument''"
    using that rejected by (auto simp: Update_def)
  have other: "Update stringify ssm event w = (Inl err, w')"
    if "err_code err \<noteq> Some ''InvalidResourceId'' \<and> err_code err \<noteq> Some ''InvalidDocument''"
    using that rejected by (auto simp: Update_def split: option.split)
  have create_calls: "calls (snd (Create stringify ssm event w')) =
          calls w' @ [CreateDocument (Name (ResourceProperties event))
                        (stringify (Content (ResourceProperties event)))
                        (DocumentType (ResourceProperties event))
                        (or_else (TargetType (ResourceProperties event)) defaultTargetType)
                        (makeTags event (ResourceProperties event))]"
    by (simp add: Create_def Let_def split: option.split)
  have create_ok: "\<exists>result. fst (Create stringify ssm event w') = Inr result \<and>
            Data result ''Name'' = Some (Name (ResourceProperties event))"
    if "ssm_createDocument ssm
           (CreateDocument (Name (ResourceProperties event))
              (stringify (Content (ResourceProperties event)))
              (DocumentType (ResourceProperties event))
              (or_else (TargetType (ResourceProperties event)) defaultTargetType)
              (makeTags event (ResourceProperties event))) = None"
    using that by (simp add: Create_def Let_def addResponseValue_def)
  show ?thesis
    using heal other create_calls create_ok by metis
qed

theorem Update_self_heal_witness:
  "updatePipeline JSON_quote (ssm_update_fails (AWSError ''InvalidDocument'' ''Document does not exist''))
     (update_event (props ''a'' []) (props ''b'' [])) module_loaded =
     (Inl (AWSError ''InvalidDocument'' ''Document does not exist''),
      \<lparr>latestVersion = None,
       calls = [UpdateDocument ''doc1'' (JSON_quote ''b'') ''/'' ''$LATEST'']\<rparr>) \<and>
   err_code (AWSError ''InvalidDocument'' ''Document does not exist'') = Some ''InvalidDocument'' \<and>
   calls (snd (Update JSON_quote (ssm_update_fails (AWSError ''InvalidDocument'' ''Document does not exist''))
     (update_event (props ''a'' []) (props ''b'' [])) module_loaded)) =
     [UpdateDocument ''doc1'' (JSON_quote ''b'') ''/'' ''$LATEST'',
      CreateDocument ''doc1'' (JSON_quote ''b'') (Some ''Automation'') ''/''
        [\<lparr>Key = ''aws-cloudformation:stack-id'', Value = Some ''arn:stack/1''\<rparr>,
         \<lparr>Key = ''aws-cloudformation:stack-name'', Value = Some ''stack''\<rparr>,
         \<lparr>Key = ''aws-cloudformation:logical-id'', Value = Some ''Doc''\<rparr>]] \<and>
   (\<exists>result. fst (Update JSON_quote (ssm_update_fails (AWSError ''InvalidDocument'' ''Document does not exist''))
     (update_event (props ''a'' []) (props ''b'' [])) module_loaded) = Inr result \<and>
      Data result ''Name'' = Some ''doc1'') \<and>
   updatePipeline JSON_quote (ssm_update_fails (AWSError ''AccessDenied'' ''no''))
     (update_event (props ''a'' []) (props ''b'' [])) module_loaded =
     (Inl (AWSError ''AccessDenied'' ''no''),
      \<lparr>latestVersion = None,
       calls = [UpdateDocument ''doc1'' (JSON_quote ''b'') ''/'' ''$LATEST'']\<rparr>) \<and>
   fst (Update JSON_quote (ssm_update_fails (AWSError ''AccessDenied'' ''no''))
     (update_event (props ''a'' []) (props ''b'' [])) module_loaded) = Inl (AWSError ''AccessDenied'' ''no'')"
proof -
  let ?ev = "update_event (props ''a'' []) (props ''b'' [])"
  let ?w1 = "\<lparr>latestVersion = None,
       calls = [UpdateDocument ''doc1'' (JSON_quote ''b'') ''/'' ''$LATEST'']\<rparr>"
  have neq: "JSON_quote ''b'' \<noteq> JSON_quote ''a''"
    by (simp add: JSON_quote_def JSON_escape_def)
  have rejected: "updatePipeline JSON_quote (ssm_update_fails err) ?ev module_loaded = (Inl err, ?w1)"
    if "err_code err \<noteq> Some ''DuplicateDocumentContent''" for err
    using that neq
    by (simp add: updatePipeline_def updateDocument_def ssm_update_fails_def update_event_def
        props_def module_loaded_def or_else_def defaultTargetType_def)
  have r1: "updatePipeline JSON_quote
      (ssm_update_fails (AWSError ''InvalidDocument'' ''Document does not exist'')) ?ev module_loaded =
      (Inl (AWSError ''InvalidDocument'' ''Document does not exist''), ?w1)"
    by (rule rejected) simp
  have r2: "updatePipeline JSON_quote (ssm_update_fails (AWSError ''AccessDenied'' ''no'')) ?ev
      module_loaded = (Inl (AWSError ''AccessDenied'' ''no''), ?w1)"
    by (rule rejected) simp
  have accepted: "ssm_createDocument (ssm_update_fails err) req = None" for err req
    by (simp add: ssm_update_fails_def ssm_ok_def)
  have tags: "makeTags ?ev (ResourceProperties ?ev) =
        [\<lparr>Key = ''aws-cloudformation:stack-id'', Value = Some ''arn:stack/1''\<rparr>,
         \<lparr>Key = ''aws-cloudformation:stack-name'', Value = Some ''stack''\<rparr>,
         \<lparr>Key = ''aws-cloudformation:logical-id'', Value = Some ''Doc''\<rparr>]"
    by (simp add: makeTags_def update_event_def props_def)
  have fields: "Name (ResourceProperties ?ev) = ''doc1''"
    "Content (ResourceProperties ?ev) = ''b''"
    "DocumentType (ResourceProperties ?ev) = Some ''Automation''"
    "or_else (TargetType (ResourceProperties ?ev)) defaultTargetType = ''/''"
    by (simp_all add: update_event_def props_def or_else_def defaultTargetType_def)
  let ?gone = "AWSError ''InvalidDocument'' ''Document does not exist''"
  let ?req = "CreateDocument ''doc1'' (JSON_quote ''b'') (Some ''Automation'') ''/''
        [\<lparr>Key = ''aws-cloudformation:stack-id'', Value = Some ''arn:stack/1''\<rparr>,
         \<lparr>Key = ''aws-cloudformation:stack-name'', Value = Some ''stack''\<rparr>,
         \<lparr>Key = ''aws-cloudformation:logical-id'', Value = Some ''Doc''\<rparr>]"
  note heal = Update_self_heal [OF r1, unfolded tags fields]
  have code: "err_code ?gone = Some ''InvalidResourceId'' \<or> err_code ?gone = Some ''InvalidDocument''"
    by simp
  from heal code
  have issued: "calls (snd (Update JSON_quote (ssm_update_fails ?gone) ?ev module_loaded)) =
      calls ?w1 @ [?req]"
    by blast
  from heal code accepted [of ?gone ?req]
  have named: "\<exists>result. fst (Update JSON_quote (ssm_update_fails ?gone) ?ev module_loaded) = Inr result \<and>
      Data result ''Name'' = Some ''doc1''"
    by blast
  have other: "err_code (AWSError ''AccessDenied'' ''no'') \<noteq> Some ''InvalidResourceId'' \<and>
      err_code (AWSError ''AccessDenied'' ''no'') \<noteq> Some ''InvalidDocument''"
    by simp
  from Update_self_heal [OF r2] other
  have propagated: "Update JSON_quote (ssm_update_fails (AWSError ''AccessDenied'' ''no'')) ?ev
      module_loaded = (Inl (AWSError ''AccessDenied'' ''no''), ?w1)"
    by blast
  from issued have issued': "calls (snd (Update JSON_quote (ssm_update_fails ?gone) ?ev module_loaded)) =
      [UpdateDocument ''doc1'' (JSON_quote ''b'') ''/'' ''$LATEST'', ?req]"
    by simp
  from propagated have propagated': "fst (Update JSON_quote
      (ssm_update_fails (AWSError ''AccessDenied'' ''no'')) ?ev module_loaded) =
      Inl (AWSError ''AccessDenied'' ''no'')"
    by simp
  have code': "err_code ?gone = Some ''InvalidDocument''"
    by simp
  from r1 code' issued' named r2 propagated' show ?thesis
    by blast
qed




lemma updateDocumentDefaultVersion_keeps:
  "updateDocumentDefaultVersion ssm event w = (r, w') \<Longrightarrow>
     latestVersion w' = latestVersion w \<and>
     filter isContentUpdate (calls w') = filter isContentUpdate (calls w) \<and>
     (\<forall>e. r = Inr e \<longrightarrow> e = event)"
  by (auto simp: updateDocumentDefaultVersion_def Let_def split: if_splits option.splits)



lemma promote_step:
  "updateDocumentDefaultVersion ssm event w =
     (case UpdateDefaultVersion (ResourceProperties event) of
        None \<Rightarrow> (Inl TypeError, w)
      | Some flag \<Rightarrow>
          if toLowerCase flag = ''true'' \<and> latestVersion w \<noteq> None \<and> latestVersion w \<noteq> Some []
          then (case ssm_updateDocumentDefaultVersion ssm
                       (UpdateDocumentDefaultVersion (Name (ResourceProperties event))
                          (the (latestVersion w))) of
                  Some err \<Rightarrow> Inl err | None \<Rightarrow> Inr event,
                w\<lparr>calls := calls w @
                  [UpdateDocumentDefaultVersion (Name (ResourceProperties event))
                     (the (latestVersion w))]\<rparr>)
          else (Inr event, w))"
  by (auto simp: updateDocumentDefaultVersion_def Let_def split: option.splits)

lemma updateDocument_calls:
  "calls (snd (updateDocument stringify ssm event w)) =
     calls w @
     (if stringify (Content (ResourceProperties event)) =
           stringify (Content (OldResourceProperties event)) \<and>
         or_else (targetType (ResourceProperties event)) defaultTargetType =
           or_else (targetType (OldResourceProperties event)) defaultTargetType
      then []
      else [UpdateDocument (Name (ResourceProperties event))
              (stringify (Content (ResourceProperties event)))
              (or_else (targetType (ResourceProperties event)) defaultTargetType) ''$LATEST''])"
  by (simp add: updateDocument_def Let_def split: sum.split)


lemma undefined_latestVersion_no_promote:
  "latestVersion w = None \<Longrightarrow>
     calls (snd (updateDocumentDefaultVersion ssm event w)) = calls w"
  by (simp add: promote_step split: option.split)

text \<open>
  C1 (the code at the failing input). \<open>latestVersion\<close> is a variable of the module,
  so it keeps its value between two invocations served by the same loaded module.
  A first update changes the content and is assigned version \<open>2\<close>. A second update
  whose step 1 produces no version, because nothing changed or because the service
  answers \<open>DuplicateDocumentContent\<close>, still finds \<open>latestVersion\<close> set and promotes
  version \<open>2\<close>.
\<close>

theorem latestVersion_survives_invocation:
  "snd (Update JSON_quote (ssm_ok ''2'') (update_event (props ''a'' []) (props ''b'' []))
        module_loaded) =
     \<lparr>latestVersion = Some ''2'',
      calls = [UpdateDocument ''doc1'' (JSON_quote ''b'') ''/'' ''$LATEST'',
               UpdateDocumentDefaultVersion ''doc1'' ''2'']\<rparr> \<and>
   updateDocument JSON_quote (ssm_ok ''3'') (update_event (props ''b'' []) (props ''b'' []))
     \<lparr>latestVersion = Some ''2'',
      calls = [UpdateDocument ''doc1'' (JSON_quote ''b'') ''/'' ''$LATEST'',
               UpdateDocumentDefaultVersion ''doc1'' ''2'']\<rparr> =
     (Inr (update_event (props ''b'' []) (props ''b'' [])),
      \<lparr>latestVersion = Some ''2'',
       calls = [UpdateDocument ''doc1'' (JSON_quote ''b'') ''/'' ''$LATEST'',
                UpdateDocumentDefaultVersion ''doc1'' ''2'']\<rparr>) \<and>
   snd (Update JSON_quote (ssm_ok ''3'') (update_event (props ''b'' []) (props ''b'' []))
     \<lparr>latestVersion = Some ''2'',
      calls = [UpdateDocument ''doc1'' (JSON_quote ''b'') ''/'' ''$LATEST'',
               UpdateDocumentDefaultVersion ''doc1'' ''2'']\<rparr>) =
     \<lparr>latestVersion = Some ''2'',
      calls = [UpdateDocument ''doc1'' (JSON_quote ''b'') ''/'' ''$LATEST'',
               UpdateDocumentDefaultVersion ''doc1'' ''2'',
               UpdateDocumentDefaultVersion ''doc1'' ''2'']\<rparr> \<and>
   snd (Update JSON_quote (ssm_update_fails (AWSError ''DuplicateDocumentContent'' ''same content''))
     (update_event (props ''b'' []) (props ''a'' []))
     \<lparr>latestVersion = Some ''2'',
      calls = [UpdateDocument ''doc1'' (JSON_quote ''b'') ''/'' ''$LATEST'',
               UpdateDocumentDefaultVersion ''doc1'' ''2'']\<rparr>) =
     \<lparr>latestVersion = Some ''2'',
      calls = [UpdateDocument ''doc1'' (JSON_quote ''b'') ''/'' ''$LATEST'',
               UpdateDocumentDefaultVersion ''doc1'' ''2'',
               UpdateDocument ''doc1'' (JSON_quote ''a'') ''/'' ''$LATEST'',
               UpdateDocumentDefaultVersion ''doc1'' ''2'']\<rparr>"
proof -
  have neq: "JSON_quote ''b'' \<noteq> JSON_quote ''a''" "JSON_quote ''a'' \<noteq> JSON_quote ''b''"
    by (simp_all add: JSON_quote_def JSON_escape_def)
  have lower: "toLowerCase ''true'' = ''true''"
    by code_simp
  note defs = Update_def updatePipeline_def updateDocument_def updateDocumentAddTags_def
      updateDocumentRemoveTags_def updateDocumentDefaultVersion_def update_event_def props_def
      makeTags_def getMissingTags_def missingTags_def ssm_ok_def ssm_update_fails_def
      module_loaded_def or_else_def defaultTargetType_def addResponseValue_def
  have first: "snd (Update JSON_quote (ssm_ok ''2'') (update_event (props ''a'' []) (props ''b'' []))
        module_loaded) =
     \<lparr>latestVersion = Some ''2'',
      calls = [UpdateDocument ''doc1'' (JSON_quote ''b'') ''/'' ''$LATEST'',
               UpdateDocumentDefaultVersion ''doc1'' ''2'']\<rparr>"
    using neq lower by (simp add: defs)
  have step1: "updateDocument JSON_quote (ssm_ok ''3'') (update_event (props ''b'' []) (props ''b'' []))
     \<lparr>latestVersion = Some ''2'',
      calls = [UpdateDocument ''doc1'' (JSON_quote ''b'') ''/'' ''$LATEST'',
               UpdateDocumentDefaultVersion ''doc1'' ''2'']\<rparr> =
     (Inr (update_event (props ''b'' []) (props ''b'' [])),
      \<lparr>latestVersion = Some ''2'',
       calls = [UpdateDocument ''doc1'' (JSON_quote ''b'') ''/'' ''$LATEST'',
                UpdateDocumentDefaultVersion ''doc1'' ''2'']\<rparr>)"
    by (simp add: updateDocument_def update_event_def props_def)
  have second: "snd (Update JSON_quote (ssm_ok ''3'') (update_event (props ''b'' []) (props ''b'' []))
     \<lparr>latestVersion = Some ''2'',
      calls = [UpdateDocument ''doc1'' (JSON_quote ''b'') ''/'' ''$LATEST'',
               UpdateDocumentDefaultVersion ''doc1'' ''2'']\<rparr>) =
     \<lparr>latestVersion = Some ''2'',
      calls = [UpdateDocument ''doc1'' (JSON_quote ''b'') ''/'' ''$LATEST'',
               UpdateDocumentDefaultVersion ''doc1'' ''2'',
               UpdateDocumentDefaultVersion ''doc1'' ''2'']\<rparr>"
    using lower by (simp add: defs)
  have rollback: "snd (Update JSON_quote
       (ssm_update_fails (AWSError ''DuplicateDocumentContent'' ''same content''))
     (update_event (props ''b'' []) (props ''a'' []))
     \<lparr>latestVersion = Some ''2'',
      calls = [UpdateDocument ''doc1'' (JSON_quote ''b'') ''/'' ''$LATEST'',
               UpdateDocumentDefaultVersion ''doc1'' ''2'']\<rparr>) =
     \<lparr>latestVersion = Some ''2'',
      calls = [UpdateDocument ''doc1'' (JSON_quote ''b'') ''/'' ''$LATEST'',
               UpdateDocumentDefaultVersion ''doc1'' ''2'',
               UpdateDocument ''doc1'' (JSON_quote ''a'') ''/'' ''$LATEST'',
               UpdateDocumentDefaultVersion ''doc1'' ''2'']\<rparr>"
    using neq lower by (simp add: defs)
  from first step1 second rollback show ?thesis
    by (intro conjI)
qed

text \<open>
  C4 (the code at the failing input). \<open>Create\<close> sends the property \<open>TargetType\<close> as
  the target type of the document, but step 1 of the update compares and sends the
  property \<open>targetType\<close>. An update that changes \<open>TargetType\<close> and nothing else
  issues no content update.
\<close>

theorem TargetType_change_not_updated:
  "calls (snd (Create JSON_quote (ssm_ok ''1'')
      (update_event (props ''a'' []) ((props ''a'' [])\<lparr>TargetType := Some ''/AWS::EC2::Instance''\<rparr>))
      module_loaded)) =
     [CreateDocument ''doc1'' (JSON_quote ''a'') (Some ''Automation'') ''/AWS::EC2::Instance''
        [\<lparr>Key = ''aws-cloudformation:stack-id'', Value = Some ''arn:stack/1''\<rparr>,
         \<lparr>Key = ''aws-cloudformation:stack-name'', Value = Some ''stack''\<rparr>,
         \<lparr>Key = ''aws-cloudformation:logical-id'', Value = Some ''Doc''\<rparr>]] \<and>
   or_else (TargetType (OldResourceProperties
      (update_event ((props ''a'' [])\<lparr>TargetType := Some ''/AWS::EC2::Instance''\<rparr>)
                    ((props ''a'' [])\<lparr>TargetType := Some ''/AWS::S3::Bucket''\<rparr>))))
      defaultTargetType \<noteq>
   or_else (TargetType (ResourceProperties
      (update_event ((props ''a'' [])\<lparr>TargetType := Some ''/AWS::EC2::Instance''\<rparr>)
                    ((props ''a'' [])\<lparr>TargetType := Some ''/AWS::S3::Bucket''\<rparr>))))
      defaultTargetType \<and>
   filter isContentUpdate (calls (snd (updateDocument JSON_quote (ssm_ok ''2'')
      (update_event ((props ''a'' [])\<lparr>TargetType := Some ''/AWS::EC2::Instance''\<rparr>)
                    ((props ''a'' [])\<lparr>TargetType := Some ''/AWS::S3::Bucket''\<rparr>))
      module_loaded))) = [] \<and>
   calls (snd (Update JSON_quote (ssm_ok ''2'')
      (update_event ((props ''a'' [])\<lparr>TargetType := Some ''/AWS::EC2::Instance''\<rparr>)
                    ((props ''a'' [])\<lparr>TargetType := Some ''/AWS::S3::Bucket''\<rparr>))
      module_loaded)) = []"
proof -
  note defs = Update_def updatePipeline_def updateDocument_def updateDocumentAddTags_def
      updateDocumentRemoveTags_def updateDocumentDefaultVersion_def update_event_def props_def
      makeTags_def getMissingTags_def missingTags_def ssm_ok_def Create_def
      module_loaded_def or_else_def defaultTargetType_def addResponseValue_def
  have lower: "toLowerCase ''true'' = ''true''"
    by code_simp
  have created: "calls (snd (Create JSON_quote (ssm_ok ''1'')
      (update_event (props ''a'' []) ((props ''a'' [])\<lparr>TargetType := Some ''/AWS::EC2::Instance''\<rparr>))
      module_loaded)) =
     [CreateDocument ''doc1'' (JSON_quote ''a'') (Some ''Automation'') ''/AWS::EC2::Instance''
        [\<lparr>Key = ''aws-cloudformation:stack-id'', Value = Some ''arn:stack/1''\<rparr>,
         \<lparr>Key = ''aws-cloudformation:stack-name'', Value = Some ''stack''\<rparr>,
         \<lparr>Key = ''aws-cloudformation:logical-id'', Value = Some ''Doc''\<rparr>]]"
    by (simp add: defs)
  have differ: "or_else (TargetType (OldResourceProperties
      (update_event ((props ''a'' [])\<lparr>TargetType := Some ''/AWS::EC2::Instance''\<rparr>)
                    ((props ''a'' [])\<lparr>TargetType := Some ''/AWS::S3::Bucket''\<rparr>))))
      defaultTargetType \<noteq>
   or_else (TargetType (ResourceProperties
      (update_event ((props ''a'' [])\<lparr>TargetType := Some ''/AWS::EC2::Instance''\<rparr>)
                    ((props ''a'' [])\<lparr>TargetType := Some ''/AWS::S3::Bucket''\<rparr>))))
      defaultTargetType"
    by (simp add: defs)
  have step1: "filter isContentUpdate (calls (snd (updateDocument JSON_quote (ssm_ok ''2'')
      (update_event ((props ''a'' [])\<lparr>TargetType := Some ''/AWS::EC2::Instance''\<rparr>)
                    ((props ''a'' [])\<lparr>TargetType := Some ''/AWS::S3::Bucket''\<rparr>))
      module_loaded))) = []"
    by (simp add: defs)
  have whole: "calls (snd (Update JSON_quote (ssm_ok ''2'')
      (update_event ((props ''a'' [])\<lparr>TargetType := Some ''/AWS::EC2::Instance''\<rparr>)
                    ((props ''a'' [])\<lparr>TargetType := Some ''/AWS::S3::Bucket''\<rparr>))
      module_loaded)) = []"
    using lower by (simp add: defs)
  from created differ step1 whole show ?thesis
    by (intro conjI)
qed

lemma of_char_hexDigit:
  "n < 16 \<Longrightarrow> (of_char (hexDigit n) :: nat) = (if n < 10 then 48 + n else 87 + n)"
  by (simp add: hexDigit_def)

lemma hexDigit_inj: "m < 16 \<Longrightarrow> n < 16 \<Longrightarrow> hexDigit m = hexDigit n \<Longrightarrow> m = n"
proof -
  assume m: "m < 16" and n: "n < 16" and eq: "hexDigit m = hexDigit n"
  from eq have "(of_char (hexDigit m) :: nat) = of_char (hexDigit n)" by simp
  with m n show "m = n"
    by (simp add: of_char_hexDigit split: if_splits)
qed

lemma control_char_eq:
  assumes "(of_char c :: nat) < 32" "(of_char d :: nat) < 32"
    and "hexDigit ((of_char c :: nat) div 16) = hexDigit ((of_char d :: nat) div 16)"
    and "hexDigit ((of_char c :: nat) mod 16) = hexDigit ((of_char d :: nat) mod 16)"
  shows "c = d"
proof -
  from assms(1,2) have "(of_char c :: nat) div 16 < 16" "(of_char d :: nat) div 16 < 16"
    by simp_all
  with assms(3) have dv: "(of_char c :: nat) div 16 = (of_char d :: nat) div 16"
    by (rule_tac hexDigit_inj)
  have "(of_char c :: nat) mod 16 < 16" "(of_char d :: nat) mod 16 < 16"
    by simp_all
  with assms(4) have md: "(of_char c :: nat) mod 16 = (of_char d :: nat) mod 16"
    by (rule_tac hexDigit_inj)
  from dv md have "(of_char c :: nat) = of_char d"
    by (metis div_mult_mod_eq)
  then show ?thesis by simp
qed

text \<open>The shape of an escape: one plain character, or a backslash and a tail.\<close>

lemma JSON_escape_cases:
  "(JSON_escape c = [c] \<and> c \<noteq> CHR 0x5C \<and> c \<noteq> CHR 0x22) \<or>
   (\<exists>x. JSON_escape c = [CHR 0x5C, x] \<and> x \<noteq> CHR ''u'') \<or>
   (JSON_escape c = [CHR 0x5C, CHR ''u'', CHR ''0'', CHR ''0'',
        hexDigit ((of_char c :: nat) div 16), hexDigit ((of_char c :: nat) mod 16)] \<and>
    (of_char c :: nat) < 32)"
  by (simp add: JSON_escape_def)

lemma JSON_escape_short_inj:
  "JSON_escape c = [CHR 0x5C, x] \<Longrightarrow> JSON_escape d = [CHR 0x5C, x] \<Longrightarrow> c = d"
  by (auto simp: JSON_escape_def split: if_splits)

lemma JSON_escape_prefix_code:
  assumes "JSON_escape c @ r = JSON_escape d @ r'"
  shows "c = d \<and> r = r'"
proof -
  consider
      (plain) "JSON_escape c = [c]" "c \<noteq> CHR 0x5C"
    | (short) x where "JSON_escape c = [CHR 0x5C, x]" "x \<noteq> CHR ''u''"
    | (long) "JSON_escape c = [CHR 0x5C, CHR ''u'', CHR ''0'', CHR ''0'',
        hexDigit ((of_char c :: nat) div 16), hexDigit ((of_char c :: nat) mod 16)]"
        "(of_char c :: nat) < 32"
    using JSON_escape_cases [of c] by blast
  then show ?thesis
  proof cases
    case plain
    from JSON_escape_cases [of d] plain assms show ?thesis
      by auto
  next
    case (short x)
    from JSON_escape_cases [of d] short assms
    have "JSON_escape d = [CHR 0x5C, x]" and "r = r'"
      by auto
    with short(1) show ?thesis
      by (simp add: JSON_escape_short_inj)
  next
    case long
    from JSON_escape_cases [of d] long assms
    have d: "JSON_escape d = [CHR 0x5C, CHR ''u'', CHR ''0'', CHR ''0'',
        hexDigit ((of_char d :: nat) div 16), hexDigit ((of_char d :: nat) mod 16)]"
        "(of_char d :: nat) < 32"
      by auto
    with long assms have
      "hexDigit ((of_char c :: nat) div 16) = hexDigit ((of_char d :: nat) div 16)"
      "hexDigit ((of_char c :: nat) mod 16) = hexDigit ((of_char d :: nat) mod 16)"
      "r = r'"
      by simp_all
    with long(2) d(2) show ?thesis
      by (simp add: control_char_eq)
  qed
qed

lemma JSON_escape_not_quote:
  "JSON_escape c @ r \<noteq> CHR 0x22 # r'"
  using JSON_escape_cases [of c] by auto

lemma JSON_body_inj:
  "concat (map JSON_escape s) @ CHR 0x22 # r = concat (map JSON_escape s') @ CHR 0x22 # r'
     \<Longrightarrow> s = s' \<and> r = r'"
proof (induction s arbitrary: s')
  case Nil
  then show ?case
    by (cases s') (simp_all add: JSON_escape_not_quote [symmetric])
next
  case (Cons c s)
  show ?case
  proof (cases s')
    case Nil
    with Cons.prems show ?thesis
      by (simp add: JSON_escape_not_quote)
  next
    case (Cons d t)
    with Cons.prems
    have "JSON_escape c @ (concat (map JSON_escape s) @ CHR 0x22 # r) =
          JSON_escape d @ (concat (map JSON_escape t) @ CHR 0x22 # r')"
      by simp
    then have "c = d" and "concat (map JSON_escape s) @ CHR 0x22 # r =
        concat (map JSON_escape t) @ CHR 0x22 # r'"
      by (auto dest: JSON_escape_prefix_code)
    with Cons.IH [of t] Cons show ?thesis
      by simp
  qed
qed

lemma JSON_quote_inj:
  "JSON_quote s @ r = JSON_quote s' @ r' \<Longrightarrow> s = s' \<and> r = r'"
  using JSON_body_inj [of s r s' r'] by (simp add: JSON_quote_def)


lemma JSON_stringify_Tag_inj:
  assumes "JSON_stringify_Tag t @ r = JSON_stringify_Tag t' @ r'"
  shows "t = t' \<and> r = r'"
proof -
  let ?tail = "\<lambda>t r. (case Value t of
        None \<Rightarrow> []
      | Some v \<Rightarrow> '','' @ JSON_quote ''Value'' @ '':'' @ JSON_quote v) @ ''}'' @ r"
  from assms have "JSON_quote (Key t) @ ?tail t r = JSON_quote (Key t') @ ?tail t' r'"
    by (simp add: JSON_stringify_Tag_def)
  then have key: "Key t = Key t'" and tail: "?tail t r = ?tail t' r'"
    by (auto dest: JSON_quote_inj)
  have "Value t = Value t' \<and> r = r'"
  proof (cases "Value t")
    case None
    with tail show ?thesis
      by (cases "Value t'") simp_all
  next
    case (Some v)
    show ?thesis
    proof (cases "Value t'")
      case None
      with tail Some show ?thesis by simp
    next
      case (Some v')
      with tail \<open>Value t = Some v\<close>
      have "JSON_quote v @ (''}'' @ r) = JSON_quote v' @ (''}'' @ r')"
        by simp
      then have "v = v'" and "r = r'"
        by (auto dest: JSON_quote_inj)
      with Some \<open>Value t = Some v\<close> show ?thesis by simp
    qed
  qed
  with key show ?thesis
    by simp
qed

lemma JSON_stringify_Tag_starts: "\<exists>rest. JSON_stringify_Tag t = CHR ''{'' # rest"
  by (simp add: JSON_stringify_Tag_def)

lemma join_comma_Cons:
  "join_comma (x # xs) = x @ concat (map (\<lambda>y. '','' @ y) xs)"
  by (induction xs arbitrary: x) simp_all

lemma JSON_more_Tags_inj:
  "concat (map (\<lambda>y. '','' @ y) (map JSON_stringify_Tag ts)) @ '']'' =
   concat (map (\<lambda>y. '','' @ y) (map JSON_stringify_Tag ts')) @ '']'' \<Longrightarrow> ts = ts'"
proof (induction ts arbitrary: ts')
  case Nil
  then show ?case by (cases ts') simp_all
next
  case (Cons t ts)
  show ?case
  proof (cases ts')
    case Nil
    with Cons.prems show ?thesis by simp
  next
    case (Cons u us)
    with Cons.prems
    have "JSON_stringify_Tag t @
            (concat (map (\<lambda>y. '','' @ y) (map JSON_stringify_Tag ts)) @ '']'') =
          JSON_stringify_Tag u @
            (concat (map (\<lambda>y. '','' @ y) (map JSON_stringify_Tag us)) @ '']'')"
      by simp
    then have "t = u" and "concat (map (\<lambda>y. '','' @ y) (map JSON_stringify_Tag ts)) @ '']'' =
        concat (map (\<lambda>y. '','' @ y) (map JSON_stringify_Tag us)) @ '']''"
      by (auto dest: JSON_stringify_Tag_inj)
    with Cons.IH [of us] Cons show ?thesis by simp
  qed
qed

lemma JSON_stringify_Tags_inj:
  assumes "JSON_stringify_Tags ts = JSON_stringify_Tags ts'"
  shows "ts = ts'"
proof (cases ts)
  case Nil
  show ?thesis
  proof (cases ts')
    case Nil
    with \<open>ts = []\<close> show ?thesis by simp
  next
    case (Cons u us)
    obtain rest where "JSON_stringify_Tag u = CHR ''{'' # rest"
      using JSON_stringify_Tag_starts by blast
    with assms \<open>ts = []\<close> Cons show ?thesis
      by (simp add: JSON_stringify_Tags_def join_comma_Cons)
  qed
next
  case (Cons t tl)
  show ?thesis
  proof (cases ts')
    case Nil
    obtain rest where "JSON_stringify_Tag t = CHR ''{'' # rest"
      using JSON_stringify_Tag_starts by blast
    with assms Cons Nil show ?thesis
      by (simp add: JSON_stringify_Tags_def join_comma_Cons)
  next
    case (Cons u us)
    with assms \<open>ts = t # tl\<close>
    have "JSON_stringify_Tag t @
            (concat (map (\<lambda>y. '','' @ y) (map JSON_stringify_Tag tl)) @ '']'') =
          JSON_stringify_Tag u @
            (concat (map (\<lambda>y. '','' @ y) (map JSON_stringify_Tag us)) @ '']'')"
      by (simp add: JSON_stringify_Tags_def join_comma_Cons)
    then have "t = u" and "concat (map (\<lambda>y. '','' @ y) (map JSON_stringify_Tag tl)) @ '']'' =
        concat (map (\<lambda>y. '','' @ y) (map JSON_stringify_Tag us)) @ '']''"
      by (auto dest: JSON_stringify_Tag_inj)
    with JSON_more_Tags_inj [of tl us] Cons \<open>ts = t # tl\<close> show ?thesis by simp
  qed
qed

lemma JSON_stringify_Tags_eq_iff:
  "JSON_stringify_Tags ts = JSON_stringify_Tags ts' \<longleftrightarrow> ts = ts'"
  using JSON_stringify_Tags_inj by blast

lemma updateDocumentAddTags_calls:
  "updateDocumentAddTags ssm event w =
     (if makeTags event (OldResourceProperties event) = makeTags event (ResourceProperties event)
      then (Inr event, w)
      else
        (case ssm_addTagsToResource ssm
                (AddTagsToResource ''Document'' (Name (ResourceProperties event))
                   (makeTags event (ResourceProperties event))) of
           Some err \<Rightarrow> Inl err
         | None \<Rightarrow> Inr event,
         w\<lparr>calls := calls w @
              [AddTagsToResource ''Document'' (Name (ResourceProperties event))
                 (makeTags event (ResourceProperties event))]\<rparr>))"
  by (simp add: updateDocumentAddTags_def Let_def JSON_stringify_Tags_eq_iff split: option.split)

text \<open>
  C6 (as amended). The tag-addition step is a no-op exactly when the old and the new
  computed tag lists are the same list, entry by entry and in the same order: the
  comparison is on the serialised lists. In every other case, also when the two
  lists hold the same entries in another order, it issues one
  \<open>AddTagsToResource\<close> request carrying the full new list.
\<close>

theorem updateDocumentAddTags_noop_iff_same_list:
  "(makeTags event (OldResourceProperties event) = makeTags event (ResourceProperties event) \<longrightarrow>
      updateDocumentAddTags ssm event w = (Inr event, w)) \<and>
   (makeTags event (OldResourceProperties event) \<noteq> makeTags event (ResourceProperties event) \<longrightarrow>
      calls (snd (updateDocumentAddTags ssm event w)) =
        calls w @ [AddTagsToResource ''Document'' (Name (ResourceProperties event))
                     (makeTags event (ResourceProperties event))])"
  by (simp add: updateDocumentAddTags_calls)

theorem updateDocumentAddTags_noop_iff_same_list_witness:
  "makeTags (update_event (props ''a'' [(''x'', ''1'')]) (props ''a'' [(''x'', ''1'')]))
     (OldResourceProperties (update_event (props ''a'' [(''x'', ''1'')]) (props ''a'' [(''x'', ''1'')]))) =
   makeTags (update_event (props ''a'' [(''x'', ''1'')]) (props ''a'' [(''x'', ''1'')]))
     (ResourceProperties (update_event (props ''a'' [(''x'', ''1'')]) (props ''a'' [(''x'', ''1'')]))) \<and>
   updateDocumentAddTags (ssm_ok ''2'')
     (update_event (props ''a'' [(''x'', ''1'')]) (props ''a'' [(''x'', ''1'')])) module_loaded =
     (Inr (update_event (props ''a'' [(''x'', ''1'')]) (props ''a'' [(''x'', ''1'')])), module_loaded) \<and>
   makeTags (update_event (props ''a'' [(''x'', ''1'')]) (props ''a'' [(''x'', ''1''), (''y'', ''2'')]))
     (OldResourceProperties
        (update_event (props ''a'' [(''x'', ''1'')]) (props ''a'' [(''x'', ''1''), (''y'', ''2'')]))) \<noteq>
   makeTags (update_event (props ''a'' [(''x'', ''1'')]) (props ''a'' [(''x'', ''1''), (''y'', ''2'')]))
     (ResourceProperties
        (update_event (props ''a'' [(''x'', ''1'')]) (props ''a'' [(''x'', ''1''), (''y'', ''2'')]))) \<and>
   calls (snd (updateDocumentAddTags (ssm_ok ''2'')
     (update_event (props ''a'' [(''x'', ''1'')]) (props ''a'' [(''x'', ''1''), (''y'', ''2'')]))
     module_loaded)) =
     [AddTagsToResource ''Document'' ''doc1''
        [\<lparr>Key = ''aws-cloudformation:stack-id'', Value = Some ''arn:stack/1''\<rparr>,
         \<lparr>Key = ''aws-cloudformation:stack-name'', Value = Some ''stack''\<rparr>,
         \<lparr>Key = ''aws-cloudformation:logical-id'', Value = Some ''Doc''\<rparr>,
         \<lparr>Key = ''x'', Value = Some ''1''\<rparr>,
         \<lparr>Key = ''y'', Value = Some ''2''\<rparr>]]"
proof -
  let ?same = "update_event (props ''a'' [(''x'', ''1'')]) (props ''a'' [(''x'', ''1'')])"
  let ?more = "update_event (props ''a'' [(''x'', ''1'')]) (props ''a'' [(''x'', ''1''), (''y'', ''2'')])"
  have same: "makeTags ?same (OldResourceProperties ?same) = makeTags ?same (ResourceProperties ?same)"
    by (simp add: update_event_def)
  have new: "makeTags ?more (ResourceProperties ?more) =
        [\<lparr>Key = ''aws-cloudformation:stack-id'', Value = Some ''arn:stack/1''\<rparr>,
         \<lparr>Key = ''aws-cloudformation:stack-name'', Value = Some ''stack''\<rparr>,
         \<lparr>Key = ''aws-cloudformation:logical-id'', Value = Some ''Doc''\<rparr>,
         \<lparr>Key = ''x'', Value = Some ''1''\<rparr>,
         \<lparr>Key = ''y'', Value = Some ''2''\<rparr>]"
    by (simp add: makeTags_def update_event_def props_def)
  have old: "makeTags ?more (OldResourceProperties ?more) =
        [\<lparr>Key = ''aws-cloudformation:stack-id'', Value = Some ''arn:stack/1''\<rparr>,
         \<lparr>Key = ''aws-cloudformation:stack-name'', Value = Some ''stack''\<rparr>,
         \<lparr>Key = ''aws-cloudformation:logical-id'', Value = Some ''Doc''\<rparr>,
         \<lparr>Key = ''x'', Value = Some ''1''\<rparr>]"
    by (simp add: makeTags_def update_event_def props_def)
  from old new have differ: "makeTags ?more (OldResourceProperties ?more) \<noteq>
      makeTags ?more (ResourceProperties ?more)"
    by simp
  have name: "Name (ResourceProperties ?more) = ''doc1''" "calls module_loaded = []"
    by (simp_all add: update_event_def props_def module_loaded_def)
  from updateDocumentAddTags_noop_iff_same_list [of ?same "ssm_ok ''2''" module_loaded] same
  have noop: "updateDocumentAddTags (ssm_ok ''2'') ?same module_loaded = (Inr ?same, module_loaded)"
    by (rule_tac mp [OF conjunct1])
  from updateDocumentAddTags_noop_iff_same_list [of ?more "ssm_ok ''2''" module_loaded] differ
  have "calls (snd (updateDocumentAddTags (ssm_ok ''2'') ?more module_loaded)) =
      calls module_loaded @ [AddTagsToResource ''Document'' (Name (ResourceProperties ?more))
        (makeTags ?more (ResourceProperties ?more))]"
    by (rule_tac mp [OF conjunct2])
  then have pushed: "calls (snd (updateDocumentAddTags (ssm_ok ''2'') ?more module_loaded)) =
     [AddTagsToResource ''Document'' ''doc1''
        [\<lparr>Key = ''aws-cloudformation:stack-id'', Value = Some ''arn:stack/1''\<rparr>,
         \<lparr>Key = ''aws-cloudformation:stack-name'', Value = Some ''stack''\<rparr>,
         \<lparr>Key = ''aws-cloudformation:logical-id'', Value = Some ''Doc''\<rparr>,
         \<lparr>Key = ''x'', Value = Some ''1''\<rparr>,
         \<lparr>Key = ''y'', Value = Some ''2''\<rparr>]]"
    by (simp only: name new append_Nil)
  from same noop differ pushed show ?thesis
    by (intro conjI)
qed

text \<open>
  C6 as stated fails when the user tags are reordered: the two computed tag lists
  are equal as sets, and the step still issues an \<open>AddTagsToResource\<close> request.
\<close>

theorem updateDocumentAddTags_reordered_counterexample:
  "set (makeTags (update_event (props ''a'' [(''x'', ''1''), (''y'', ''2'')])
                               (props ''a'' [(''y'', ''2''), (''x'', ''1'')]))
         (OldResourceProperties (update_event (props ''a'' [(''x'', ''1''), (''y'', ''2'')])
                                              (props ''a'' [(''y'', ''2''), (''x'', ''1'')])))) =
   set (makeTags (update_event (props ''a'' [(''x'', ''1''), (''y'', ''2'')])
                               (props ''a'' [(''y'', ''2''), (''x'', ''1'')]))
         (ResourceProperties (update_event (props ''a'' [(''x'', ''1''), (''y'', ''2'')])
                                           (props ''a'' [(''y'', ''2''), (''x'', ''1'')])))) \<and>
   calls (snd (updateDocumentAddTags (ssm_ok ''2'')
      (update_event (props ''a'' [(''x'', ''1''), (''y'', ''2'')])
                    (props ''a'' [(''y'', ''2''), (''x'', ''1'')]))
      module_loaded)) =
     [AddTagsToResource ''Document'' ''doc1''
        [\<lparr>Key = ''aws-cloudformation:stack-id'', Value = Some ''arn:stack/1''\<rparr>,
         \<lparr>Key = ''aws-cloudformation:stack-name'', Value = Some ''stack''\<rparr>,
         \<lparr>Key = ''aws-cloudformation:logical-id'', Value = Some ''Doc''\<rparr>,
         \<lparr>Key = ''y'', Value = Some ''2''\<rparr>,
         \<lparr>Key = ''x'', Value = Some ''1''\<rparr>]]"
proof -
  let ?ev = "update_event (props ''a'' [(''x'', ''1''), (''y'', ''2'')])
                          (props ''a'' [(''y'', ''2''), (''x'', ''1'')])"
  have new: "makeTags ?ev (ResourceProperties ?ev) =
        [\<lparr>Key = ''aws-cloudformation:stack-id'', Value = Some ''arn:stack/1''\<rparr>,
         \<lparr>Key = ''aws-cloudformation:stack-name'', Value = Some ''stack''\<rparr>,
         \<lparr>Key = ''aws-cloudformation:logical-id'', Value = Some ''Doc''\<rparr>,
         \<lparr>Key = ''y'', Value = Some ''2''\<rparr>,
         \<lparr>Key = ''x'', Value = Some ''1''\<rparr>]"
    by (simp add: makeTags_def update_event_def props_def)
  have old: "makeTags ?ev (OldResourceProperties ?ev) =
        [\<lparr>Key = ''aws-cloudformation:stack-id'', Value = Some ''arn:stack/1''\<rparr>,
         \<lparr>Key = ''aws-cloudformation:stack-name'', Value = Some ''stack''\<rparr>,
         \<lparr>Key = ''aws-cloudformation:logical-id'', Value = Some ''Doc''\<rparr>,
         \<lparr>Key = ''x'', Value = Some ''1''\<rparr>,
         \<lparr>Key = ''y'', Value = Some ''2''\<rparr>]"
    by (simp add: makeTags_def update_event_def props_def)
  have sets: "set (makeTags ?ev (OldResourceProperties ?ev)) =
      set (makeTags ?ev (ResourceProperties ?ev))"
    unfolding old new by auto
  have name: "Name (ResourceProperties ?ev) = ''doc1''" "calls module_loaded = []"
    by (simp_all add: update_event_def props_def module_loaded_def)
  have differ: "makeTags ?ev (OldResourceProperties ?ev) \<noteq> makeTags ?ev (ResourceProperties ?ev)"
    unfolding old new by simp
  then have "calls (snd (updateDocumentAddTags (ssm_ok ''2'') ?ev module_loaded)) =
      calls module_loaded @ [AddTagsToResource ''Document'' (Name (ResourceProperties ?ev))
        (makeTags ?ev (ResourceProperties ?ev))]"
    by (simp add: updateDocumentAddTags_calls)
  then have issued: "calls (snd (updateDocumentAddTags (ssm_ok ''2'') ?ev module_loaded)) =
     [AddTagsToResource ''Document'' ''doc1''
        [\<lparr>Key = ''aws-cloudformation:stack-id'', Value = Some ''arn:stack/1''\<rparr>,
         \<lparr>Key = ''aws-cloudformation:stack-name'', Value = Some ''stack''\<rparr>,
         \<lparr>Key = ''aws-cloudformation:logical-id'', Value = Some ''Doc''\<rparr>,
         \<lparr>Key = ''y'', Value = Some ''2''\<rparr>,
         \<lparr>Key = ''x'', Value = Some ''1''\<rparr>]]"
    by (simp only: name new append_Nil)
  from sets issued show ?thesis
    by (intro conjI)
qed

section \<open>Default-version promotion\<close>





end
